theory Spec2Isabelle
  imports Complex_Main
begin

section \<open>String primitives of the host language\<close>

text \<open>
  Both routes are TypeScript. A string is modelled as a \<^typ>\<open>string\<close>, one \<^typ>\<open>char\<close> per
  code unit, and the model covers ASCII text: case mapping acts on the letters A-Z and a-z,
  white space is the six ASCII white-space characters that \<^verbatim>\<open>\s\<close> and \<^verbatim>\<open>trim\<close> recognise,
  and a digit is one of 0-9. The numbers that the analyzers compute are small integers,
  modelled as \<^typ>\<open>int\<close> (scores) and \<^typ>\<open>nat\<close> (lengths).
\<close>

definition isWhiteSpace :: "char \<Rightarrow> bool" where
  "isWhiteSpace c = (c \<in> set [CHR 0x09, CHR 0x0A, CHR 0x0B, CHR 0x0C, CHR 0x0D, CHR 0x20])"

definition isDigit :: "char \<Rightarrow> bool" where
  "isDigit c = (c \<in> set ''0123456789'')"

text \<open>The character class \<^verbatim>\<open>[.!?]\<close> of the sentence splitter.\<close>

definition isTerminator :: "char \<Rightarrow> bool" where
  "isTerminator c = (c \<in> set ''.!?'')"

fun lowerChar :: "char \<Rightarrow> char" where
  "lowerChar c =
     (case map_of (zip ''ABCDEFGHIJKLMNOPQRSTUVWXYZ'' ''abcdefghijklmnopqrstuvwxyz'') c of
        Some l \<Rightarrow> l | None \<Rightarrow> c)"

fun upperChar :: "char \<Rightarrow> char" where
  "upperChar c =
     (case map_of (zip ''abcdefghijklmnopqrstuvwxyz'' ''ABCDEFGHIJKLMNOPQRSTUVWXYZ'') c of
        Some u \<Rightarrow> u | None \<Rightarrow> c)"

definition toLowerCase :: "string \<Rightarrow> string" where
  "toLowerCase s = map lowerChar s"

definition toUpperCase :: "string \<Rightarrow> string" where
  "toUpperCase s = map upperChar s"

definition trim :: "string \<Rightarrow> string" where
  "trim s = rev (dropWhile isWhiteSpace (rev (dropWhile isWhiteSpace s)))"

fun startsWith :: "string \<Rightarrow> string \<Rightarrow> bool" where
  "startsWith s [] = True"
| "startsWith [] (c # t) = False"
| "startsWith (a # s) (c # t) = (a = c \<and> startsWith s t)"

text \<open>\<^verbatim>\<open>s.includes(t)\<close>: \<open>t\<close> occurs in \<open>s\<close> as a contiguous run of characters.\<close>

fun includesStr :: "string \<Rightarrow> string \<Rightarrow> bool" where
  "includesStr [] t = (t = [])"
| "includesStr (a # s) t = (startsWith (a # s) t \<or> includesStr s t)"

text \<open>
  \<^verbatim>\<open>s.split(/[...]+/)\<close> for a character class: the pieces between the maximal runs of
  separator characters. A separator at either end leaves an empty piece there, and the empty
  string splits into one empty piece. The flag says that the previous character was a
  separator, so that the rest of its run is skipped.
\<close>

fun splitAcc :: "(char \<Rightarrow> bool) \<Rightarrow> bool \<Rightarrow> string \<Rightarrow> string \<Rightarrow> string list" where
  "splitAcc sep inRun acc [] = [rev acc]"
| "splitAcc sep inRun acc (c # cs) =
     (if sep c then
        (if inRun then splitAcc sep True acc cs
         else rev acc # splitAcc sep True [] cs)
      else splitAcc sep False (c # acc) cs)"

definition splitRuns :: "(char \<Rightarrow> bool) \<Rightarrow> string \<Rightarrow> string list" where
  "splitRuns sep s = splitAcc sep False [] s"

text \<open>\<^verbatim>\<open>xs.join(sep)\<close>.\<close>

fun join :: "string \<Rightarrow> string list \<Rightarrow> string" where
  "join sep [] = []"
| "join sep [x] = x"
| "join sep (x # y # ys) = x @ sep @ join sep (y # ys)"

text \<open>\<^verbatim>\<open>s.replace(/\s+/g, " ")\<close>: every maximal run of white space becomes one space.\<close>

fun collapseAcc :: "bool \<Rightarrow> string \<Rightarrow> string" where
  "collapseAcc inRun [] = []"
| "collapseAcc inRun (c # cs) =
     (if isWhiteSpace c then
        (if inRun then collapseAcc True cs else CHR 0x20 # collapseAcc True cs)
      else c # collapseAcc False cs)"

definition collapseWhiteSpace :: "string \<Rightarrow> string" where
  "collapseWhiteSpace s = collapseAcc False s"

text \<open>\<^verbatim>\<open>Math.max(0, Math.min(100, x))\<close>.\<close>

definition clampScore :: "int \<Rightarrow> int" where
  "clampScore x = max 0 (min 100 x)"

text \<open>\<^verbatim>\<open>cond ? [item] : []\<close>, and a \<^verbatim>\<open>push\<close> under an \<^verbatim>\<open>if\<close>.\<close>

definition pushIf :: "bool \<Rightarrow> string \<Rightarrow> string list" where
  "pushIf cond item = (if cond then [item] else [])"

section \<open>The analysis result\<close>

record LanguageAnalysis =
  tone :: string
  objectivity :: string
  emotionalLanguage :: "string list"
  hedgingLanguage :: "string list"

record StrengthsWeaknesses =
  strengths :: "string list"
  weaknesses :: "string list"

record OverallAssessment =
  credibilityScore :: int
  biasIndicators :: "string list"
  strengthsWeaknesses :: StrengthsWeaknesses

record AnalysisResult =
  coreClaims :: "string list"
  languageAnalysis :: LanguageAnalysis
  redFlags :: "string list"
  verificationQuestions :: "string list"
  overallAssessment :: OverallAssessment

section \<open>The analyzer of the analyze route\<close>

text \<open>
  \<^verbatim>\<open>analyzeArticle\<close> of \<^verbatim>\<open>src/app/api/analyze/route.ts\<close>. Each local constant of the function
  is a definition of its own, in the order of the source; a local whose name the other
  analyzer uses too carries the function's name in front. The local \<^verbatim>\<open>words\<close> is computed
  and never read, and neither is the parameter \<^verbatim>\<open>url\<close>, which is therefore of any type: the
  handler passes whatever the request held under that name.
\<close>

definition analyzeArticle_sentences :: "string \<Rightarrow> string list" where
  "analyzeArticle_sentences content =
     filter (\<lambda>s. length (trim s) > 10) (splitRuns isTerminator content)"

definition analyzeArticle_emotionalWords :: "string list" where
  "analyzeArticle_emotionalWords =
     [''shocking'', ''devastating'', ''incredible'', ''amazing'', ''terrible'', ''outrageous'',
      ''unbelievable'', ''stunning'']"

definition foundEmotional :: "string \<Rightarrow> string list" where
  "foundEmotional content =
     filter (\<lambda>word. includesStr (toLowerCase content) word) analyzeArticle_emotionalWords"

definition hedgingWords :: "string list" where
  "hedgingWords =
     [''allegedly'', ''reportedly'', ''sources say'', ''it appears'', ''seems to'', ''might'',
      ''could be'']"

definition analyzeArticle_foundHedging :: "string \<Rightarrow> string list" where
  "analyzeArticle_foundHedging content =
     filter (\<lambda>phrase. includesStr (toLowerCase content) phrase) hedgingWords"

definition claimIndicators :: "string list" where
  "claimIndicators =
     [''is'', ''are'', ''will'', ''has'', ''have'', ''shows'', ''proves'', ''demonstrates'']"

definition hasIndicator :: "string \<Rightarrow> bool" where
  "hasIndicator s = list_ex (\<lambda>indicator. includesStr (toLowerCase s) indicator) claimIndicators"

definition potentialClaims :: "string \<Rightarrow> string list" where
  "potentialClaims content =
     map trim (take 5 (filter hasIndicator (analyzeArticle_sentences content)))"

definition hasQuotes :: "string \<Rightarrow> bool" where
  "hasQuotes content = (includesStr content [CHR 0x22] \<or> includesStr content [CHR 0x27])"

definition hasNumbers :: "string \<Rightarrow> bool" where
  "hasNumbers content = list_ex isDigit content"

definition hasSourceAttribution :: "string \<Rightarrow> bool" where
  "hasSourceAttribution content =
     (includesStr (toLowerCase content) ''according to''
      \<or> includesStr (toLowerCase content) ''source'')"

definition analyzeArticle_tone :: "string \<Rightarrow> string" where
  "analyzeArticle_tone content =
     (if length (foundEmotional content) > 2 then ''emotional''
      else if length (analyzeArticle_foundHedging content) > 1 then ''cautious''
      else if hasNumbers content \<and> hasSourceAttribution content then ''analytical''
      else ''neutral'')"

text \<open>The score is assigned five times and then clamped.\<close>

definition analyzeArticle_credibilityScore :: "string \<Rightarrow> int" where
  "analyzeArticle_credibilityScore content =
     (let score = 50;
          score = (if hasQuotes content then score + 15 else score);
          score = (if hasNumbers content then score + 10 else score);
          score = (if hasSourceAttribution content then score + 20 else score);
          score = (if length (foundEmotional content) > 3 then score - 20 else score);
          score = (if length (analyzeArticle_sentences content) < 10 then score - 15 else score)
      in clampScore score)"

definition analyzeArticle_redFlags :: "string \<Rightarrow> string \<Rightarrow> string list" where
  "analyzeArticle_redFlags content title =
     pushIf (length (foundEmotional content) > 3)
       ''Heavy use of emotional language may indicate bias''
     @ pushIf (\<not> hasSourceAttribution content)
         ''Limited source attribution - claims not well-supported''
     @ pushIf (length (analyzeArticle_sentences content) < 10)
         ''Article appears unusually short for the topic''
     @ pushIf (includesStr title ''!'' \<or> toUpperCase title = title) ''Sensationalized headline''
     @ pushIf (\<not> hasNumbers content \<and> length content > 1000)
         ''Lacks specific data or statistics''"

definition analyzeArticle :: "string \<Rightarrow> string \<Rightarrow> 'u \<Rightarrow> AnalysisResult" where
  "analyzeArticle content title url =
     \<lparr> coreClaims = take 4 (potentialClaims content),
       languageAnalysis = \<lparr>
         tone = analyzeArticle_tone content,
         objectivity =
           (if analyzeArticle_credibilityScore content > 70 then ''High''
            else if analyzeArticle_credibilityScore content > 40 then ''Moderate'' else ''Low''),
         emotionalLanguage = foundEmotional content,
         hedgingLanguage = analyzeArticle_foundHedging content \<rparr>,
       redFlags = analyzeArticle_redFlags content title,
       verificationQuestions =
         [''What are the primary sources for the main claims in this article?'',
          ''Are there any conflicting reports or alternative perspectives on this topic?'',
          ''What evidence supports the key assertions made?'',
          ''Who benefits from this particular framing of the story?''],
       overallAssessment = \<lparr>
         credibilityScore = analyzeArticle_credibilityScore content,
         biasIndicators =
           (if length (foundEmotional content) > 2
            then [''Emotional language'', ''Potential sensationalism''] else []),
         strengthsWeaknesses = \<lparr>
           strengths =
             pushIf (hasQuotes content) ''Includes direct quotes''
             @ pushIf (hasNumbers content) ''Contains specific data''
             @ pushIf (hasSourceAttribution content) ''Cites sources'',
           weaknesses =
             pushIf (length (foundEmotional content) > 2) ''Uses emotional language''
             @ pushIf (\<not> hasSourceAttribution content) ''Limited source attribution''
             @ pushIf (length (analyzeArticle_sentences content) < 10)
                 ''Very brief coverage'' \<rparr> \<rparr> \<rparr>"

text \<open>
  The handler of the analyze route reads \<^verbatim>\<open>content\<close>, \<^verbatim>\<open>title\<close> and \<^verbatim>\<open>url\<close> from whatever JSON
  value the request body holds, so the model has the parsed values of JSON. A number is
  modelled by its value; the handler only tests whether it is zero.
\<close>

datatype JsValue =
    JsNull
  | JsBool bool
  | JsNumber real
  | JsString string
  | JsArray "JsValue list"
  | JsObject "(string \<times> JsValue) list"

text \<open>
  Reading one of the three properties, as the destructuring does; \<open>None\<close> is \<^verbatim>\<open>undefined\<close>.
  Only an object has a property of these names, and of a key that the JSON text holds twice
  the last one counts.
\<close>

fun getProp :: "JsValue \<Rightarrow> string \<Rightarrow> JsValue option" where
  "getProp (JsObject props) key = map_of (rev props) key"
| "getProp v key = None"

text \<open>What \<^verbatim>\<open>!v\<close> negates: the falsy values are undefined, null, false, zero and the empty string.\<close>

fun truthy :: "JsValue option \<Rightarrow> bool" where
  "truthy None = False"
| "truthy (Some JsNull) = False"
| "truthy (Some (JsBool b)) = b"
| "truthy (Some (JsNumber x)) = (x \<noteq> 0)"
| "truthy (Some (JsString s)) = (s \<noteq> [])"
| "truthy (Some (JsArray xs)) = True"
| "truthy (Some (JsObject props)) = True"

datatype HttpError = HttpError nat string

text \<open>
  The handler. The request is \<open>None\<close> when its body is not JSON; parsing it then throws, and
  so does the destructuring of null. Everything thrown is caught and answered with status 500.
  After the check of content and title the handler calls \<^verbatim>\<open>analyzeArticle\<close> on the values as
  they are. A content that is not a string throws at the first statement
  (\<^verbatim>\<open>content.toLowerCase()\<close>). The title is read in one place only, the test
  \<^verbatim>\<open>title.includes("!") || title.toUpperCase() === title\<close>: a title that is an array has
  \<^verbatim>\<open>includes\<close>, so an array that holds the string \<^verbatim>\<open>"!"\<close> passes the test like a title with an
  exclamation mark, and any other title that is not a string throws there. What the handler
  answers is a status with a message, or the analysis.
\<close>

definition POST_analyze :: "JsValue option \<Rightarrow> HttpError + AnalysisResult" where
  "POST_analyze request =
     (case request of
        None \<Rightarrow> Inl (HttpError 500 ''Failed to analyze article'')
      | Some body \<Rightarrow>
          if body = JsNull then Inl (HttpError 500 ''Failed to analyze article'')
          else
            (let content = getProp body ''content'';
                 title = getProp body ''title'';
                 url = getProp body ''url''
             in if \<not> truthy content \<or> \<not> truthy title
                then Inl (HttpError 400 ''Content and title are required'')
                else
                  (case content of
                     Some (JsString c) \<Rightarrow>
                       (case title of
                          Some (JsString t) \<Rightarrow> Inr (analyzeArticle c t url)
                        | Some (JsArray xs) \<Rightarrow>
                            if JsString ''!'' \<in> set xs then Inr (analyzeArticle c ''!'' url)
                            else Inl (HttpError 500 ''Failed to analyze article'')
                        | _ \<Rightarrow> Inl (HttpError 500 ''Failed to analyze article''))
                   | _ \<Rightarrow> Inl (HttpError 500 ''Failed to analyze article''))))"

section \<open>The analyzer of the scrape route\<close>

text \<open>
  \<^verbatim>\<open>generateAnalysis\<close> of the scrape route. Here \<^verbatim>\<open>foundEmotionalWords\<close> holds tokens of the
  body (the white-space separated pieces of the lower-cased text that contain a lexicon entry),
  not lexicon entries. The parameter \<^verbatim>\<open>url\<close> is never read.
\<close>

definition generateAnalysis_words :: "string \<Rightarrow> string list" where
  "generateAnalysis_words content = splitRuns isWhiteSpace (toLowerCase content)"

definition generateAnalysis_sentences :: "string \<Rightarrow> string list" where
  "generateAnalysis_sentences content =
     filter (\<lambda>s. length (trim s) > 0) (splitRuns isTerminator content)"

definition generateAnalysis_emotionalWords :: "string list" where
  "generateAnalysis_emotionalWords =
     [''amazing'', ''terrible'', ''shocking'', ''incredible'', ''devastating'', ''outrageous'',
      ''fantastic'', ''horrible'']"

definition foundEmotionalWords :: "string \<Rightarrow> string list" where
  "foundEmotionalWords content =
     filter (\<lambda>word. list_ex (\<lambda>emo. includesStr word emo) generateAnalysis_emotionalWords)
       (generateAnalysis_words content)"

definition hedgingPhrases :: "string list" where
  "hedgingPhrases =
     [''might'', ''could'', ''possibly'', ''perhaps'', ''allegedly'', ''reportedly'', ''seems to'',
      ''appears to'']"

definition generateAnalysis_foundHedging :: "string \<Rightarrow> string list" where
  "generateAnalysis_foundHedging content =
     filter (\<lambda>phrase. includesStr (toLowerCase content) phrase) hedgingPhrases"

definition generateAnalysis_coreClaims :: "string \<Rightarrow> string list" where
  "generateAnalysis_coreClaims content =
     map trim (take 4 (filter (\<lambda>s. length (trim s) > 20) (generateAnalysis_sentences content)))"

definition hasEmotionalLanguage :: "string \<Rightarrow> bool" where
  "hasEmotionalLanguage content = (length (foundEmotionalWords content) > 0)"

definition hasHedging :: "string \<Rightarrow> bool" where
  "hasHedging content = (length (generateAnalysis_foundHedging content) > 0)"

definition generateAnalysis_tone :: "string \<Rightarrow> string" where
  "generateAnalysis_tone content =
     (if hasEmotionalLanguage content \<and> \<not> hasHedging content then ''emotional''
      else if hasHedging content \<and> \<not> hasEmotionalLanguage content then ''cautious''
      else if hasEmotionalLanguage content \<and> hasHedging content then ''mixed''
      else ''neutral'')"

definition generateAnalysis_objectivity :: "string \<Rightarrow> string" where
  "generateAnalysis_objectivity content =
     (if length (foundEmotionalWords content) = 0
         \<and> length (generateAnalysis_foundHedging content) > 2 then ''high''
      else if length (foundEmotionalWords content) > 3 then ''low''
      else ''moderate'')"

definition generateAnalysis_redFlags :: "string \<Rightarrow> string \<Rightarrow> string list" where
  "generateAnalysis_redFlags content title =
     pushIf (length (foundEmotionalWords content) > 3) ''Excessive use of emotional language''
     @ pushIf (length (generateAnalysis_sentences content) < 5)
         ''Very short article with limited information''
     @ pushIf (\<not> includesStr content ''source'' \<and> \<not> includesStr content ''study''
               \<and> \<not> includesStr content ''research'') ''Lack of cited sources or references''
     @ pushIf (includesStr title ''!'' \<or> includesStr title ''BREAKING'')
         ''Sensationalized headline''"

definition generateAnalysis_credibilityScore :: "string \<Rightarrow> string \<Rightarrow> int" where
  "generateAnalysis_credibilityScore content title =
     (let score = 70;
          score = score - int (length (foundEmotionalWords content)) * 5;
          score = score + int (length (generateAnalysis_foundHedging content)) * 3;
          score = score - int (length (generateAnalysis_redFlags content title)) * 10
      in clampScore score)"

definition generateAnalysis :: "string \<Rightarrow> string \<Rightarrow> string \<Rightarrow> AnalysisResult" where
  "generateAnalysis content title url =
     \<lparr> coreClaims = generateAnalysis_coreClaims content,
       languageAnalysis = \<lparr>
         tone = generateAnalysis_tone content,
         objectivity = generateAnalysis_objectivity content,
         emotionalLanguage = take 5 (foundEmotionalWords content),
         hedgingLanguage = take 5 (generateAnalysis_foundHedging content) \<rparr>,
       redFlags = generateAnalysis_redFlags content title,
       verificationQuestions =
         [''What are the primary sources cited in this article?'',
          ''Can the main claims be verified through independent sources?'',
          ''What is the author's expertise and potential bias on this topic?'',
          ''Are there any conflicting reports or alternative perspectives mentioned?''],
       overallAssessment = \<lparr>
         credibilityScore = generateAnalysis_credibilityScore content title,
         biasIndicators =
           pushIf (length (foundEmotionalWords content) > 2) ''Emotional Language''
           @ pushIf (includesStr title ''!'') ''Sensational Headlines''
           @ pushIf (length (generateAnalysis_redFlags content title) > 2) ''Multiple Red Flags'',
         strengthsWeaknesses = \<lparr>
           strengths =
             pushIf (length (generateAnalysis_foundHedging content) > 0)
               ''Uses qualifying language showing appropriate caution''
             @ pushIf (length content > 500) ''Provides substantial detail and context''
             @ pushIf (length (generateAnalysis_sentences content) > 10)
                 ''Comprehensive coverage of the topic'',
           weaknesses =
             pushIf (length (foundEmotionalWords content) > 2)
               ''Contains emotionally charged language''
             @ pushIf (length (generateAnalysis_redFlags content title) > 0)
                 ''Multiple red flags identified in content and presentation''
             @ pushIf (length content < 300) ''Limited depth and detail in reporting'' \<rparr> \<rparr> \<rparr>"

section \<open>The content extraction of the scrape route\<close>

text \<open>
  The handler parses the fetched HTML with cheerio and queries it by selector. The parsed
  document is taken as given: \<open>selectTexts d sel\<close> is the text of each element that \<open>sel\<close>
  matches, in document order (\<^verbatim>\<open>$(sel).map((_, el) => $(el).text()).get()\<close>), and
  \<open>attrOf d sel name\<close> is \<^verbatim>\<open>$(sel).attr(name)\<close>, the attribute of the first match, if any.
\<close>

record Document =
  selectTexts :: "string \<Rightarrow> string list"
  attrOf :: "string \<Rightarrow> string \<Rightarrow> string option"

text \<open>\<^verbatim>\<open>$(sel).text()\<close>, the texts of all matches one after the other.\<close>

definition textOf :: "Document \<Rightarrow> string \<Rightarrow> string" where
  "textOf d sel = concat (selectTexts d sel)"

text \<open>\<^verbatim>\<open>$(sel).first().text()\<close>, empty when nothing matches.\<close>

definition firstText :: "Document \<Rightarrow> string \<Rightarrow> string" where
  "firstText d sel = (case selectTexts d sel of [] \<Rightarrow> [] | x # xs \<Rightarrow> x)"

text \<open>\<^verbatim>\<open>a || b\<close> where \<open>a\<close> may be undefined and \<open>b\<close> is a string.\<close>

definition orElse :: "string option \<Rightarrow> string \<Rightarrow> string" where
  "orElse a b = (case a of None \<Rightarrow> b | Some s \<Rightarrow> if s = [] then b else s)"

definition extractTitle :: "Document \<Rightarrow> string" where
  \<open>extractTitle d =
     orElse (Some (trim (textOf d ''title'')))
       (orElse (Some (trim (firstText d ''h1'')))
          (orElse (attrOf d ''meta[property="og:title"]'' ''content'') ''Untitled Article''))\<close>

definition extractAuthor :: "Document \<Rightarrow> string" where
  \<open>extractAuthor d =
     orElse (attrOf d ''meta[name="author"]'' ''content'')
       (orElse (attrOf d ''meta[property="article:author"]'' ''content'')
          (orElse (Some (trim (firstText d ''.author''))) (trim (firstText d ''[rel="author"]''))))\<close>

definition extractPublishDate :: "Document \<Rightarrow> string" where
  \<open>extractPublishDate d =
     orElse (attrOf d ''meta[property="article:published_time"]'' ''content'')
       (orElse (attrOf d ''meta[name="date"]'' ''content'')
          (orElse (attrOf d ''time'' ''datetime'') (trim (firstText d ''.date''))))\<close>

definition contentSelectors :: "string list" where
  "contentSelectors =
     [''article'', ''.article-content'', ''.post-content'', ''.entry-content'', ''main'',
      ''.content'', ''p'']"

text \<open>The text that one selector yields: the texts of its matches joined by spaces, trimmed.\<close>

definition selectorText :: "Document \<Rightarrow> string \<Rightarrow> string" where
  "selectorText d selector = trim (join '' '' (selectTexts d selector))"

text \<open>
  The loop over the selectors, with the variable \<^verbatim>\<open>content\<close> as its state: a selector that
  matches something overwrites it, and the loop breaks once it is longer than 100.
\<close>

fun scanSelectors :: "Document \<Rightarrow> string \<Rightarrow> string list \<Rightarrow> string" where
  "scanSelectors d content [] = content"
| "scanSelectors d content (selector # rest) =
     (if length (selectTexts d selector) > 0 then
        (if length (selectorText d selector) > 100 then selectorText d selector
         else scanSelectors d (selectorText d selector) rest)
      else scanSelectors d content rest)"

definition extractContent :: "Document \<Rightarrow> string" where
  "extractContent d =
     (let content = scanSelectors d [] contentSelectors
      in if content = [] then trim (collapseWhiteSpace (textOf d ''body'')) else content)"

text \<open>
  The handler of the scrape route. The network is a parameter: \<open>fetch url\<close> is the parsed
  page, or \<open>None\<close> when the request fails, times out or answers with a status that is not OK;
  each of these is thrown and caught as status 500. The request's \<^verbatim>\<open>url\<close> is \<open>None\<close> when
  the body lacks it.
\<close>

record ScrapeResponse =
  respTitle :: string
  respUrl :: string
  respAuthor :: "string option"
  respPublishDate :: "string option"
  respContent :: string
  aiAnalysis :: AnalysisResult

text \<open>\<^verbatim>\<open>s || undefined\<close>.\<close>

definition orUndefined :: "string \<Rightarrow> string option" where
  "orUndefined s = (if s = [] then None else Some s)"

definition POST_scrape ::
  "string option \<Rightarrow> (string \<Rightarrow> Document option) \<Rightarrow> HttpError + ScrapeResponse" where
  "POST_scrape url fetch =
     (case url of
        None \<Rightarrow> Inl (HttpError 400 ''URL is required'')
      | Some u \<Rightarrow>
          if u = [] then Inl (HttpError 400 ''URL is required'')
          else
            (case fetch u of
               None \<Rightarrow> Inl (HttpError 500 ''Failed to scrape article'')
             | Some d \<Rightarrow>
                 (let title = extractTitle d;
                      content = extractContent d;
                      analysis = generateAnalysis content title u
                  in Inr \<lparr> respTitle = title,
                           respUrl = u,
                           respAuthor = orUndefined (extractAuthor d),
                           respPublishDate = orUndefined (extractPublishDate d),
                           respContent = take 2000 content,
                           aiAnalysis = analysis \<rparr>)))"

section \<open>Example pages\<close>

text \<open>
  Four parsed pages for the concrete checks below. \<open>teaserPage\<close> has an \<^verbatim>\<open>article\<close> element
  with a short heading and one long paragraph outside it; \<open>shortParagraphPage\<close> is a heading
  and one short paragraph; \<open>emptyPage\<close> has an empty body; \<open>longPage\<close> is an article of 41
  paragraphs. \<open>servedPage d\<close> is a network that answers every URL with the page \<open>d\<close>.
\<close>

definition teaserPage :: Document where
  "teaserPage =
     \<lparr> selectTexts = (\<lambda>sel.
         if sel = ''article'' then [''Rainfall report'']
         else if sel = ''p'' then
           [''Researchers at the institute measured rainfall across the valley over ten years and found a steady decline in the annual totals.'']
         else if sel = ''body'' then
           [''Rainfall reportResearchers at the institute measured rainfall across the valley over ten years and found a steady decline in the annual totals.'']
         else []),
       attrOf = (\<lambda>sel name. None) \<rparr>"

definition shortParagraphPage :: Document where
  "shortParagraphPage =
     \<lparr> selectTexts = (\<lambda>sel.
         if sel = ''h1'' then [''Weather'']
         else if sel = ''p'' then [''Rain fell.'']
         else if sel = ''body'' then [''Weather  Rain fell.'']
         else []),
       attrOf = (\<lambda>sel name. None) \<rparr>"

definition emptyPage :: Document where
  "emptyPage =
     \<lparr> selectTexts = (\<lambda>sel. if sel = ''body'' then [[]] else []),
       attrOf = (\<lambda>sel name. None) \<rparr>"

definition longPage :: Document where
  "longPage =
     \<lparr> selectTexts = (\<lambda>sel.
         if sel = ''title'' then [''Valley rainfall'']
         else if sel = ''article'' then
           [join '' '' (replicate 40 ''Rainfall in the valley fell for the tenth year in a row.'' @ [''Perhaps the trend will reverse.''])]
         else if sel = ''p'' then
           replicate 40 ''Rainfall in the valley fell for the tenth year in a row.'' @ [''Perhaps the trend will reverse.'']
         else []),
       attrOf = (\<lambda>sel name. None) \<rparr>"

text \<open>A request body with the three fields as given.\<close>

definition requestOf :: "JsValue \<Rightarrow> JsValue \<Rightarrow> JsValue" where
  "requestOf content title =
     JsObject [(''content'', content), (''title'', title),
               (''url'', JsString ''http://a.example/'')]"

definition servedPage :: "Document \<Rightarrow> string \<Rightarrow> Document option" where
  "servedPage d u = Some d"

text \<open>The length of the text of each content selector, in the order of the list.\<close>

definition selectorLengths :: "Document \<Rightarrow> nat list" where
  "selectorLengths d = map (\<lambda>selector. length (selectorText d selector)) contentSelectors"

section \<open>The credibility score\<close>

lemma clampScore_range: "0 \<le> clampScore x \<and> clampScore x \<le> 100"
  by (simp add: clampScore_def)

text \<open>
  C1. For every body text, title and URL, the credibility score that either analyzer returns
  is an integer between 0 and 100: the last assignment to it is the clamp.
\<close>

theorem credibilityScore_in_range:
  "0 \<le> credibilityScore (overallAssessment (analyzeArticle content title url))
   \<and> credibilityScore (overallAssessment (analyzeArticle content title url)) \<le> 100
   \<and> 0 \<le> credibilityScore (overallAssessment (generateAnalysis content title url))
   \<and> credibilityScore (overallAssessment (generateAnalysis content title url)) \<le> 100"
  by (simp add: analyzeArticle_def generateAnalysis_def analyzeArticle_credibilityScore_def
      generateAnalysis_credibilityScore_def Let_def clampScore_range)

section \<open>Body-text resolution\<close>

lemma selectorText_unmatched: "selectTexts d sel = [] \<Longrightarrow> selectorText d sel = []"
  by (simp add: selectorText_def trim_def)

text \<open>The loop stops at the first selector whose text is longer than 100.\<close>

lemma scanSelectors_first_long:
  "\<forall>s\<in>set pre. length (selectorText d s) \<le> 100 \<Longrightarrow> length (selectorText d sel) > 100
   \<Longrightarrow> scanSelectors d c (pre @ sel # post) = selectorText d sel"
proof (induction pre arbitrary: c)
  case Nil
  then have "selectTexts d sel \<noteq> []"
    using selectorText_unmatched [of d sel] by auto
  with Nil show ?case by simp
next
  case (Cons a pre)
  then show ?case by simp
qed

text \<open>
  When no selector is long enough the loop runs to the end of the list, and the variable
  holds what the last selector that matched anything left there.
\<close>

lemma scanSelectors_none_long:
  "\<forall>s\<in>set sels. length (selectorText d s) \<le> 100
   \<Longrightarrow> scanSelectors d c sels
       = (case filter (\<lambda>s. selectTexts d s \<noteq> []) sels of
            [] \<Rightarrow> c | m # ms \<Rightarrow> selectorText d (last (m # ms)))"
proof (induction sels arbitrary: c)
  case Nil
  then show ?case by simp
next
  case (Cons a sels)
  then show ?case by (auto split: list.splits)
qed

text \<open>
  C2, as the code has it. The selectors are tried in the order of the list, and the first one
  whose space-joined, trimmed text is longer than 100 characters gives the body text. When no
  selector's text is longer than 100 characters, the body text is the text of the last
  selector of the list that matches any element, if that text is not empty; only when no
  selector matches, or the last that does has empty text, it is the text of the whole body
  with each white-space run collapsed to one space, trimmed.
\<close>

theorem body_text_resolution:
  "(contentSelectors = pre @ sel # post \<and> (\<forall>s\<in>set pre. length (selectorText d s) \<le> 100)
      \<and> length (selectorText d sel) > 100
      \<longrightarrow> extractContent d = selectorText d sel)
   \<and> ((\<forall>s\<in>set contentSelectors. length (selectorText d s) \<le> 100)
      \<longrightarrow> extractContent d
          = (case filter (\<lambda>s. selectTexts d s \<noteq> []) contentSelectors of
               [] \<Rightarrow> trim (collapseWhiteSpace (textOf d ''body''))
             | m # ms \<Rightarrow>
                 if selectorText d (last (m # ms)) = []
                 then trim (collapseWhiteSpace (textOf d ''body''))
                 else selectorText d (last (m # ms))))"
proof (intro conjI impI)
  assume h: "contentSelectors = pre @ sel # post
      \<and> (\<forall>s\<in>set pre. length (selectorText d s) \<le> 100)
      \<and> length (selectorText d sel) > 100"
  then have "scanSelectors d [] contentSelectors = selectorText d sel"
    using scanSelectors_first_long [of pre d sel "[]" post] by simp
  with h show "extractContent d = selectorText d sel"
    by (auto simp add: extractContent_def Let_def)
next
  assume h: "\<forall>s\<in>set contentSelectors. length (selectorText d s) \<le> 100"
  show "extractContent d
          = (case filter (\<lambda>s. selectTexts d s \<noteq> []) contentSelectors of
               [] \<Rightarrow> trim (collapseWhiteSpace (textOf d ''body''))
             | m # ms \<Rightarrow>
                 if selectorText d (last (m # ms)) = []
                 then trim (collapseWhiteSpace (textOf d ''body''))
                 else selectorText d (last (m # ms)))"
    unfolding extractContent_def Let_def scanSelectors_none_long [OF h]
    by (simp split: list.splits)
qed

text \<open>
  On \<open>teaserPage\<close> only the paragraph selector, the last of the list, is long enough, and its
  text is chosen over the shorter text of \<^verbatim>\<open>article\<close>. On \<open>shortParagraphPage\<close> no selector
  is long enough and the paragraph selector is the last that matches. On \<open>emptyPage\<close> nothing
  matches and the body text is used.
\<close>

theorem body_text_resolution_witness:
  "selectorLengths teaserPage = [15, 0, 0, 0, 0, 0, 128]
   \<and> extractContent teaserPage = ''Researchers at the institute measured rainfall across the valley over ten years and found a steady decline in the annual totals.''
   \<and> selectorLengths shortParagraphPage = [0, 0, 0, 0, 0, 0, 10]
   \<and> extractContent shortParagraphPage = ''Rain fell.''
   \<and> selectorLengths emptyPage = [0, 0, 0, 0, 0, 0, 0]
   \<and> extractContent emptyPage = []"
proof -
  have split: "contentSelectors
      = [''article'', ''.article-content'', ''.post-content'', ''.entry-content'', ''main'',
         ''.content''] @ ''p'' # []"
    by (simp add: contentSelectors_def)
  have short: "\<forall>s\<in>set [''article'', ''.article-content'', ''.post-content'',
      ''.entry-content'', ''main'', ''.content'']. length (selectorText teaserPage s) \<le> 100"
    by code_simp
  have long: "length (selectorText teaserPage ''p'') > 100"
    by code_simp
  have p: "selectorText teaserPage ''p'' = ''Researchers at the institute measured rainfall across the valley over ten years and found a steady decline in the annual totals.''"
    by code_simp
  have lens: "selectorLengths teaserPage = [15, 0, 0, 0, 0, 0, 128]"
    by code_simp
  have none: "\<forall>s\<in>set contentSelectors. length (selectorText emptyPage s) \<le> 100"
    by code_simp
  have unmatched: "filter (\<lambda>s. selectTexts emptyPage s \<noteq> []) contentSelectors = []"
    by code_simp
  have body: "trim (collapseWhiteSpace (textOf emptyPage ''body'')) = []"
    by code_simp
  have lens0: "selectorLengths emptyPage = [0, 0, 0, 0, 0, 0, 0]"
    by code_simp
  from body_text_resolution [of "[''article'', ''.article-content'', ''.post-content'',
      ''.entry-content'', ''main'', ''.content'']" "''p''" "[]" teaserPage]
    split short long p
  have first: "extractContent teaserPage = ''Researchers at the institute measured rainfall across the valley over ten years and found a steady decline in the annual totals.''"
    by simp
  from body_text_resolution [of "[]" "[]" "[]" emptyPage] none unmatched body
  have second: "extractContent emptyPage = []"
    by simp
  have none': "\<forall>s\<in>set contentSelectors. length (selectorText shortParagraphPage s) \<le> 100"
    by code_simp
  have matched: "filter (\<lambda>s. selectTexts shortParagraphPage s \<noteq> []) contentSelectors = [''p'']"
    by code_simp
  have para: "selectorText shortParagraphPage ''p'' = ''Rain fell.''"
    by code_simp
  have lens1: "selectorLengths shortParagraphPage = [0, 0, 0, 0, 0, 0, 10]"
    by code_simp
  from body_text_resolution [of "[]" "[]" "[]" shortParagraphPage] none' matched para
  have third: "extractContent shortParagraphPage = ''Rain fell.''"
    by simp
  from first second third lens lens0 lens1 show ?thesis by simp
qed

text \<open>
  The specification's wording of the second half fails on \<open>shortParagraphPage\<close>: no selector
  is longer than 100 characters, yet the body text is the short paragraph and not the
  collapsed text of the whole body.
\<close>

theorem body_text_counterexample:
  "selectorLengths shortParagraphPage = [0, 0, 0, 0, 0, 0, 10]
   \<and> extractContent shortParagraphPage = ''Rain fell.''
   \<and> collapseWhiteSpace (textOf shortParagraphPage ''body'') = ''Weather Rain fell.''"
  by code_simp

section \<open>Failure of the analysis\<close>

lemma POST_analyze_bad_request:
  "(POST_analyze (Some body) = Inl (HttpError 400 ''Content and title are required''))
     = (body \<noteq> JsNull
        \<and> (\<not> truthy (getProp body ''content'') \<or> \<not> truthy (getProp body ''title'')))"
  by (simp add: POST_analyze_def Let_def split: option.splits JsValue.splits)

lemma POST_analyze_answers:
  "(\<exists>r. POST_analyze (Some body) = Inr r)
     = (\<exists>c. getProp body ''content'' = Some (JsString c) \<and> c \<noteq> []
          \<and> ((\<exists>t. getProp body ''title'' = Some (JsString t) \<and> t \<noteq> [])
              \<or> (\<exists>xs. getProp body ''title'' = Some (JsArray xs) \<and> JsString ''!'' \<in> set xs)))"
proof (cases "body = JsNull")
  case True
  then show ?thesis by (simp add: POST_analyze_def)
next
  case False
  show ?thesis
  proof (cases "getProp body ''content''")
    case None
    with False show ?thesis by (simp add: POST_analyze_def Let_def)
  next
    case (Some cv)
    note content = Some
    show ?thesis
    proof (cases "getProp body ''title''")
      case None
      with False content show ?thesis by (simp add: POST_analyze_def Let_def)
    next
      case (Some tv)
      with False content show ?thesis
        by (cases cv; cases tv) (auto simp add: POST_analyze_def Let_def)
    qed
  qed
qed

text \<open>
  C3, as the code has it. There is no analysis error, and neither route tests the body text
  for being empty as such. The analyze route answers status 400, and no result, exactly when
  the request is not null and its content or its title is falsy (missing, null, false, zero
  or the empty string): for an empty body text, and also for a body text that is not empty
  when the title is. It answers with the complete analysis exactly when the content is a
  string that is not empty and the title is a string that is not empty or an array that holds
  the string of one exclamation mark; for a string title the analysis is that of content and
  title. In every other case (a request that is not JSON or is null, a truthy content that is
  not a string, any other truthy title) it answers status 500 and no result. The scrape route
  has no check of the extracted body text: whenever the URL is given and the page is fetched
  it answers with the analysis of the extracted text.
\<close>

theorem analysis_failure_cases:
  "(POST_analyze (Some body) = Inl (HttpError 400 ''Content and title are required''))
     = (body \<noteq> JsNull
        \<and> (\<not> truthy (getProp body ''content'') \<or> \<not> truthy (getProp body ''title'')))
   \<and> (\<exists>r. POST_analyze (Some body) = Inr r)
     = (\<exists>c. getProp body ''content'' = Some (JsString c) \<and> c \<noteq> []
          \<and> ((\<exists>t. getProp body ''title'' = Some (JsString t) \<and> t \<noteq> [])
              \<or> (\<exists>xs. getProp body ''title'' = Some (JsArray xs) \<and> JsString ''!'' \<in> set xs)))
   \<and> (getProp body ''content'' = Some (JsString c) \<and> c \<noteq> []
        \<and> getProp body ''title'' = Some (JsString t) \<and> t \<noteq> []
        \<longrightarrow> POST_analyze (Some body) = Inr (analyzeArticle c t (getProp body ''url'')))
   \<and> (POST_analyze request = Inl (HttpError 400 ''Content and title are required'')
        \<or> POST_analyze request = Inl (HttpError 500 ''Failed to analyze article'')
        \<or> (\<exists>r. POST_analyze request = Inr r))
   \<and> POST_analyze None = Inl (HttpError 500 ''Failed to analyze article'')
   \<and> POST_analyze (Some JsNull) = Inl (HttpError 500 ''Failed to analyze article'')
   \<and> (u \<noteq> [] \<and> fetch u = Some d
        \<longrightarrow> (\<exists>resp. POST_scrape (Some u) fetch = Inr resp
              \<and> aiAnalysis resp = generateAnalysis (extractContent d) (extractTitle d) u))"
proof (intro conjI)
  show "(POST_analyze (Some body) = Inl (HttpError 400 ''Content and title are required''))
     = (body \<noteq> JsNull
        \<and> (\<not> truthy (getProp body ''content'') \<or> \<not> truthy (getProp body ''title'')))"
    by (rule POST_analyze_bad_request)
  show "(\<exists>r. POST_analyze (Some body) = Inr r)
     = (\<exists>c. getProp body ''content'' = Some (JsString c) \<and> c \<noteq> []
          \<and> ((\<exists>t. getProp body ''title'' = Some (JsString t) \<and> t \<noteq> [])
              \<or> (\<exists>xs. getProp body ''title'' = Some (JsArray xs) \<and> JsString ''!'' \<in> set xs)))"
    by (rule POST_analyze_answers)
  show "getProp body ''content'' = Some (JsString c) \<and> c \<noteq> []
        \<and> getProp body ''title'' = Some (JsString t) \<and> t \<noteq> []
        \<longrightarrow> POST_analyze (Some body) = Inr (analyzeArticle c t (getProp body ''url''))"
    by (auto simp add: POST_analyze_def Let_def)
  show "POST_analyze request = Inl (HttpError 400 ''Content and title are required'')
        \<or> POST_analyze request = Inl (HttpError 500 ''Failed to analyze article'')
        \<or> (\<exists>r. POST_analyze request = Inr r)"
    by (simp add: POST_analyze_def Let_def split: option.splits JsValue.splits)
  show "POST_analyze None = Inl (HttpError 500 ''Failed to analyze article'')"
    by (simp add: POST_analyze_def)
  show "POST_analyze (Some JsNull) = Inl (HttpError 500 ''Failed to analyze article'')"
    by (simp add: POST_analyze_def)
  show "u \<noteq> [] \<and> fetch u = Some d
        \<longrightarrow> (\<exists>resp. POST_scrape (Some u) fetch = Inr resp
              \<and> aiAnalysis resp = generateAnalysis (extractContent d) (extractTitle d) u)"
    by (simp add: POST_scrape_def Let_def)
qed

text \<open>
  A request with a body text and a title is analysed; an empty body text, and a content that
  is the number zero, are answered with status 400; a content that is the number 123, and a
  title that is the value true, are answered with status 500; a title that is an array with
  an exclamation mark is analysed.
\<close>

theorem analysis_failure_cases_witness:
  "POST_analyze (Some (requestOf (JsString ''Rain fell all day.'') (JsString ''Weather'')))
     = Inr (analyzeArticle ''Rain fell all day.'' ''Weather''
         (Some (JsString ''http://a.example/'')))
   \<and> POST_analyze (Some (requestOf (JsString []) (JsString ''Weather'')))
     = Inl (HttpError 400 ''Content and title are required'')
   \<and> POST_analyze (Some (requestOf (JsNumber 0) (JsString ''Weather'')))
     = Inl (HttpError 400 ''Content and title are required'')
   \<and> POST_analyze (Some (requestOf (JsNumber 123) (JsString ''Weather'')))
     = Inl (HttpError 500 ''Failed to analyze article'')
   \<and> POST_analyze (Some (requestOf (JsString ''Rain fell all day.'') (JsBool True)))
     = Inl (HttpError 500 ''Failed to analyze article'')
   \<and> (\<exists>r. POST_analyze (Some (requestOf (JsString ''Rain fell all day.'')
        (JsArray [JsString ''!'']))) = Inr r)
   \<and> (\<exists>resp. POST_scrape (Some ''http://a.example/'') (servedPage shortParagraphPage) = Inr resp
        \<and> aiAnalysis resp = generateAnalysis (extractContent shortParagraphPage)
             (extractTitle shortParagraphPage) ''http://a.example/'')"
proof -
  let ?ok = "requestOf (JsString ''Rain fell all day.'') (JsString ''Weather'')"
  let ?empty = "requestOf (JsString []) (JsString ''Weather'')"
  let ?zero = "requestOf (JsNumber 0) (JsString ''Weather'')"
  let ?number = "requestOf (JsNumber 123) (JsString ''Weather'')"
  let ?flag = "requestOf (JsString ''Rain fell all day.'') (JsBool True)"
  let ?array = "requestOf (JsString ''Rain fell all day.'') (JsArray [JsString ''!''])"
  have props:
    "getProp (requestOf x y) ''content'' = Some x"
    "getProp (requestOf x y) ''title'' = Some y"
    "getProp (requestOf x y) ''url'' = Some (JsString ''http://a.example/'')"
    "requestOf x y \<noteq> JsNull" for x y
    by (simp_all add: requestOf_def)
  have url: "''http://a.example/'' \<noteq> []"
    by simp
  have fetched: "servedPage shortParagraphPage ''http://a.example/'' = Some shortParagraphPage"
    by (simp add: servedPage_def)
  from analysis_failure_cases [of ?ok "''Rain fell all day.''" "''Weather''" "Some ?ok"
      "''http://a.example/''" "servedPage shortParagraphPage" shortParagraphPage] url fetched
  have a: "POST_analyze (Some ?ok)
      = Inr (analyzeArticle ''Rain fell all day.'' ''Weather''
          (Some (JsString ''http://a.example/'')))"
    and s: "\<exists>resp. POST_scrape (Some ''http://a.example/'') (servedPage shortParagraphPage)
        = Inr resp
      \<and> aiAnalysis resp = generateAnalysis (extractContent shortParagraphPage)
           (extractTitle shortParagraphPage) ''http://a.example/''"
    by (simp_all add: props)
  from analysis_failure_cases [of ?empty]
  have b: "POST_analyze (Some ?empty) = Inl (HttpError 400 ''Content and title are required'')"
    by (simp add: props)
  from analysis_failure_cases [of ?zero]
  have c: "POST_analyze (Some ?zero) = Inl (HttpError 400 ''Content and title are required'')"
    by (simp add: props)
  from analysis_failure_cases [where body = "?number" and request = "Some ?number"]
  have d: "POST_analyze (Some ?number) = Inl (HttpError 500 ''Failed to analyze article'')"
    by (auto simp add: props)
  from analysis_failure_cases [where body = "?flag" and request = "Some ?flag"]
  have e: "POST_analyze (Some ?flag) = Inl (HttpError 500 ''Failed to analyze article'')"
    by (auto simp add: props)
  from analysis_failure_cases [of ?array]
  have f: "\<exists>r. POST_analyze (Some ?array) = Inr r"
    by (simp add: props)
  from a b c d e f s show ?thesis by simp
qed

text \<open>
  The specification's wording fails in both directions: the scrape route analyses the empty
  body text of \<open>emptyPage\<close> and answers with a result, and the analyze route rejects a request
  whose body text is not empty when its title is.
\<close>

theorem analysis_failure_counterexample:
  "extractContent emptyPage = []
   \<and> \<not> isl (POST_scrape (Some ''http://a.example/'') (servedPage emptyPage))
   \<and> POST_analyze (Some (requestOf (JsString ''Rain fell all day.'') (JsString [])))
       = Inl (HttpError 400 ''Content and title are required'')"
proof -
  have page: "extractContent emptyPage = []
      \<and> \<not> isl (POST_scrape (Some ''http://a.example/'') (servedPage emptyPage))"
    by code_simp
  have rejected: "POST_analyze (Some (requestOf (JsString ''Rain fell all day.'') (JsString [])))
       = Inl (HttpError 400 ''Content and title are required'')"
    by (simp add: POST_analyze_def requestOf_def)
  from page rejected show ?thesis by simp
qed

section \<open>Lexicon hits\<close>

lemma distinct_lexicons:
  "distinct analyzeArticle_emotionalWords" "distinct hedgingWords" "distinct hedgingPhrases"
  by (simp_all add: analyzeArticle_emotionalWords_def hedgingWords_def hedgingPhrases_def)

lemma length_lexicons:
  "length analyzeArticle_emotionalWords = 8" "length hedgingWords = 7"
  by (simp_all add: analyzeArticle_emotionalWords_def hedgingWords_def)

text \<open>
  C4, as the code has it. In the analyze route \<^verbatim>\<open>emotionalLanguage\<close> and \<^verbatim>\<open>hedgingLanguage\<close> are
  exactly the entries of their lexicons that occur in the lower-cased body, in lexicon order
  and without duplicates, and they are not capped: there are at most 8 and 7 of them. In the
  scrape route \<^verbatim>\<open>hedgingLanguage\<close> is the first at most 5 such entries of its lexicon, while
  \<^verbatim>\<open>emotionalLanguage\<close> is the first at most 5 white-space separated tokens of the lower-cased
  body that contain an entry of the emotional lexicon, in the order of the body.
\<close>

theorem lexicon_hits:
  "emotionalLanguage (languageAnalysis (analyzeArticle content title url))
     = filter (\<lambda>word. includesStr (toLowerCase content) word) analyzeArticle_emotionalWords
   \<and> distinct (emotionalLanguage (languageAnalysis (analyzeArticle content title url)))
   \<and> length (emotionalLanguage (languageAnalysis (analyzeArticle content title url))) \<le> 8
   \<and> hedgingLanguage (languageAnalysis (analyzeArticle content title url))
     = filter (\<lambda>phrase. includesStr (toLowerCase content) phrase) hedgingWords
   \<and> distinct (hedgingLanguage (languageAnalysis (analyzeArticle content title url)))
   \<and> length (hedgingLanguage (languageAnalysis (analyzeArticle content title url))) \<le> 7
   \<and> emotionalLanguage (languageAnalysis (generateAnalysis content title url))
     = take 5 (filter (\<lambda>word. list_ex (\<lambda>emo. includesStr word emo)
                 generateAnalysis_emotionalWords)
         (splitRuns isWhiteSpace (toLowerCase content)))
   \<and> length (emotionalLanguage (languageAnalysis (generateAnalysis content title url))) \<le> 5
   \<and> hedgingLanguage (languageAnalysis (generateAnalysis content title url))
     = take 5 (filter (\<lambda>phrase. includesStr (toLowerCase content) phrase) hedgingPhrases)
   \<and> distinct (hedgingLanguage (languageAnalysis (generateAnalysis content title url)))
   \<and> length (hedgingLanguage (languageAnalysis (generateAnalysis content title url))) \<le> 5"
proof -
  have e8: "length (foundEmotional content) \<le> 8"
    unfolding foundEmotional_def using length_filter_le [of _ analyzeArticle_emotionalWords]
    by (simp add: length_lexicons)
  have h7: "length (analyzeArticle_foundHedging content) \<le> 7"
    unfolding analyzeArticle_foundHedging_def using length_filter_le [of _ hedgingWords]
    by (simp add: length_lexicons)
  have de: "distinct (foundEmotional content)"
    by (simp add: foundEmotional_def distinct_lexicons)
  have dh: "distinct (analyzeArticle_foundHedging content)"
    by (simp add: analyzeArticle_foundHedging_def distinct_lexicons)
  have dg: "distinct (take 5 (generateAnalysis_foundHedging content))"
    by (simp add: generateAnalysis_foundHedging_def distinct_lexicons)
  show ?thesis
    using e8 h7 de dh dg
    by (simp add: analyzeArticle_def generateAnalysis_def foundEmotional_def
        analyzeArticle_foundHedging_def foundEmotionalWords_def generateAnalysis_words_def
        generateAnalysis_foundHedging_def)
qed

text \<open>
  The specification's wording fails in both routes. A body with the eight entries of the
  emotional lexicon of the analyze route yields all eight there, not five. In the scrape route
  a body that repeats a word yields it twice, and a body with eight entries of its lexicon
  yields the first five in the order of the body, which is not the order of the lexicon.
\<close>

theorem lexicon_hits_counterexample:
  "length (emotionalLanguage (languageAnalysis (analyzeArticle
      ''shocking devastating incredible amazing terrible outrageous unbelievable stunning''
      ''T'' ''u''))) = 8
   \<and> emotionalLanguage (languageAnalysis (generateAnalysis ''amazing amazing'' ''T'' ''u''))
       = [''amazing'', ''amazing'']
   \<and> emotionalLanguage (languageAnalysis (generateAnalysis
      ''horrible fantastic outrageous devastating incredible shocking terrible amazing''
      ''T'' ''u''))
       = [''horrible'', ''fantastic'', ''outrageous'', ''devastating'', ''incredible'']"
  by code_simp

section \<open>Tone\<close>

text \<open>
  C5, as the code has it. In the scrape route, where the emotional hits are the tokens found
  and the hedging hits the phrases found: more than 2 emotional hits and no hedging hit give
  the tone emotional, hedging hits and no emotional hit give cautious, and hits of both kinds
  give mixed. In the analyze route more than 2 emotional hits give emotional whatever the
  hedging hits are, otherwise more than 1 hedging hit gives cautious, and the tone is never
  mixed.
\<close>

theorem tone_decision_list:
  "(length (foundEmotionalWords content) > 2 \<and> length (generateAnalysis_foundHedging content) = 0
      \<longrightarrow> tone (languageAnalysis (generateAnalysis content title url)) = ''emotional'')
   \<and> (length (generateAnalysis_foundHedging content) > 0 \<and> length (foundEmotionalWords content) = 0
      \<longrightarrow> tone (languageAnalysis (generateAnalysis content title url)) = ''cautious'')
   \<and> (length (foundEmotionalWords content) > 0 \<and> length (generateAnalysis_foundHedging content) > 0
      \<longrightarrow> tone (languageAnalysis (generateAnalysis content title url)) = ''mixed'')
   \<and> (length (foundEmotional content) > 2
      \<longrightarrow> tone (languageAnalysis (analyzeArticle content title url)) = ''emotional'')
   \<and> (length (foundEmotional content) \<le> 2 \<and> length (analyzeArticle_foundHedging content) > 1
      \<longrightarrow> tone (languageAnalysis (analyzeArticle content title url)) = ''cautious'')
   \<and> tone (languageAnalysis (analyzeArticle content title url)) \<noteq> ''mixed''"
  by (simp add: generateAnalysis_def generateAnalysis_tone_def hasEmotionalLanguage_def
      hasHedging_def analyzeArticle_def analyzeArticle_tone_def)

theorem tone_decision_list_witness:
  "tone (languageAnalysis (generateAnalysis ''A shocking, terrible and horrible day.''
      ''T'' ''u'')) = ''emotional''
   \<and> tone (languageAnalysis (generateAnalysis ''It might rain.'' ''T'' ''u'')) = ''cautious''
   \<and> tone (languageAnalysis (generateAnalysis ''It might be a shocking day.'' ''T'' ''u''))
       = ''mixed''
   \<and> tone (languageAnalysis (analyzeArticle ''A shocking, terrible and amazing day.''
        ''T'' ''u'')) = ''emotional''
   \<and> tone (languageAnalysis (analyzeArticle ''It might rain, reportedly.'' ''T'' ''u''))
       = ''cautious''"
proof -
  have e: "length (foundEmotionalWords ''A shocking, terrible and horrible day.'') > 2
      \<and> length (generateAnalysis_foundHedging ''A shocking, terrible and horrible day.'') = 0"
    by code_simp
  have c: "length (generateAnalysis_foundHedging ''It might rain.'') > 0
      \<and> length (foundEmotionalWords ''It might rain.'') = 0"
    by code_simp
  have m: "length (foundEmotionalWords ''It might be a shocking day.'') > 0
      \<and> length (generateAnalysis_foundHedging ''It might be a shocking day.'') > 0"
    by code_simp
  have ae: "length (foundEmotional ''A shocking, terrible and amazing day.'') > 2"
    by code_simp
  have ac: "length (foundEmotional ''It might rain, reportedly.'') \<le> 2
      \<and> length (analyzeArticle_foundHedging ''It might rain, reportedly.'') > 1"
    by code_simp
  from tone_decision_list [of "''A shocking, terrible and horrible day.''" "''T''" "''u''"] e
  have 1: "tone (languageAnalysis (generateAnalysis ''A shocking, terrible and horrible day.''
      ''T'' ''u'')) = ''emotional''"
    by blast
  from tone_decision_list [of "''It might rain.''" "''T''" "''u''"] c
  have 2: "tone (languageAnalysis (generateAnalysis ''It might rain.'' ''T'' ''u''))
      = ''cautious''"
    by blast
  from tone_decision_list [of "''It might be a shocking day.''" "''T''" "''u''"] m
  have 3: "tone (languageAnalysis (generateAnalysis ''It might be a shocking day.''
      ''T'' ''u'')) = ''mixed''"
    by blast
  from tone_decision_list [of "''A shocking, terrible and amazing day.''" "''T''" "''u''"] ae
  have 4: "tone (languageAnalysis (analyzeArticle ''A shocking, terrible and amazing day.''
      ''T'' ''u'')) = ''emotional''"
    by blast
  from tone_decision_list [of "''It might rain, reportedly.''" "''T''" "''u''"] ac
  have 5: "tone (languageAnalysis (analyzeArticle ''It might rain, reportedly.'' ''T'' ''u''))
      = ''cautious''"
    by blast
  from 1 2 3 4 5 show ?thesis by blast
qed

text \<open>
  The specification's wording fails in the analyze route: with one hedging hit and no
  emotional hit the tone is neutral, not cautious, and with hits of both kinds it is not
  mixed.
\<close>

theorem tone_counterexample:
  "length (hedgingLanguage (languageAnalysis
     (analyzeArticle ''It might rain over the hills.'' ''Weather'' ''u''))) = 1
   \<and> length (emotionalLanguage (languageAnalysis
     (analyzeArticle ''It might rain over the hills.'' ''Weather'' ''u''))) = 0
   \<and> tone (languageAnalysis
     (analyzeArticle ''It might rain over the hills.'' ''Weather'' ''u'')) = ''neutral''
   \<and> length (hedgingLanguage (languageAnalysis
     (analyzeArticle ''It might be a shocking day.'' ''Weather'' ''u''))) = 1
   \<and> length (emotionalLanguage (languageAnalysis
     (analyzeArticle ''It might be a shocking day.'' ''Weather'' ''u''))) = 1
   \<and> tone (languageAnalysis
     (analyzeArticle ''It might be a shocking day.'' ''Weather'' ''u'')) = ''neutral''"
  by code_simp

section \<open>Core claims\<close>

lemma filter_longer_nonempty:
  "filter (\<lambda>s. length (trim s) > 20) (filter (\<lambda>s. length (trim s) > 0) xs)
   = filter (\<lambda>s. length (trim s) > 20) xs"
  by (induction xs) auto

text \<open>
  C6, as the code has it. In the analyze route the core claims are the first at most 4
  sentences, in document order, that contain an assertive-verb indicator in lower case, each
  trimmed, where a sentence is a piece of the body between runs of terminators whose trimmed
  length is more than 10. In the scrape route they are the first at most 4 such pieces whose
  trimmed length is more than 20, each trimmed, whatever verbs they contain. Neither route
  returns more than 4.
\<close>

theorem coreClaims_extraction:
  "coreClaims (analyzeArticle content title url)
     = map trim (take 4 (filter hasIndicator (analyzeArticle_sentences content)))
   \<and> coreClaims (generateAnalysis content title url)
     = map trim (take 4 (filter (\<lambda>s. length (trim s) > 20) (splitRuns isTerminator content)))
   \<and> length (coreClaims (analyzeArticle content title url)) \<le> 4
   \<and> length (coreClaims (generateAnalysis content title url)) \<le> 4"
proof -
  have a: "coreClaims (analyzeArticle content title url)
     = map trim (take 4 (filter hasIndicator (analyzeArticle_sentences content)))"
    by (simp add: analyzeArticle_def potentialClaims_def take_map)
  have g: "coreClaims (generateAnalysis content title url)
     = map trim (take 4 (filter (\<lambda>s. length (trim s) > 20) (splitRuns isTerminator content)))"
    unfolding generateAnalysis_def generateAnalysis_coreClaims_def generateAnalysis_sentences_def
    by (simp only: filter_longer_nonempty AnalysisResult.simps)
  show ?thesis
    unfolding a g by simp
qed

text \<open>
  The specification's wording fails in the scrape route: a sentence without any indicator is
  returned as a core claim.
\<close>

theorem coreClaims_counterexample:
  "coreClaims (generateAnalysis ''The quick brown fox jumped over the dog.'' ''T'' ''u'')
     = [''The quick brown fox jumped over the dog'']
   \<and> \<not> hasIndicator ''The quick brown fox jumped over the dog''"
  by code_simp

section \<open>Red flags\<close>

lemma pushIf_set: "x \<in> set (pushIf b y) \<longleftrightarrow> b \<and> x = y"
  by (auto simp add: pushIf_def)

text \<open>
  C7, as the code has it. Whatever the body text is, the red flags of the analyze route
  contain the sensationalized-headline flag exactly when the title contains an exclamation
  mark or is equal to its own upper-casing, and those of the scrape route exactly when the
  title contains an exclamation mark or the token BREAKING. A title with an exclamation mark
  is flagged by both.
\<close>

theorem sensational_headline_flag:
  "(''Sensationalized headline'' \<in> set (redFlags (analyzeArticle content title url)))
     = (includesStr title ''!'' \<or> toUpperCase title = title)
   \<and> (''Sensationalized headline'' \<in> set (redFlags (generateAnalysis content title url)))
     = (includesStr title ''!'' \<or> includesStr title ''BREAKING'')"
  by (simp add: analyzeArticle_def analyzeArticle_redFlags_def generateAnalysis_def
      generateAnalysis_redFlags_def pushIf_set)

text \<open>
  The specification's wording fails in both routes: the analyze route does not look for the
  token BREAKING, and the scrape route does not look at the case of the title.
\<close>

theorem sensational_headline_counterexample:
  "includesStr ''BREAKING news'' ''BREAKING''
   \<and> ''Sensationalized headline''
       \<notin> set (redFlags (analyzeArticle ''Rain fell.'' ''BREAKING news'' ''u''))
   \<and> toUpperCase ''NASA LAUNCH'' = ''NASA LAUNCH''
   \<and> ''Sensationalized headline''
       \<notin> set (redFlags (generateAnalysis ''Rain fell.'' ''NASA LAUNCH'' ''u''))"
  by code_simp

text \<open>
  C10. In the scrape route the flag for missing sources is decided on the body text as it is,
  without lower-casing: it is raised exactly when the text contains none of the lower-case
  strings source, study and research, so a text that has them capitalised only is flagged.
\<close>

theorem scrape_missing_sources_flag:
  "\<not> includesStr content ''source'' \<Longrightarrow> \<not> includesStr content ''study''
   \<Longrightarrow> \<not> includesStr content ''research''
   \<Longrightarrow> ''Lack of cited sources or references''
         \<in> set (redFlags (generateAnalysis content title url))"
  by (simp add: generateAnalysis_def generateAnalysis_redFlags_def pushIf_set)

text \<open>
  A body that names its source in capitals is flagged, although the hedging detection of the
  same analyzer finds a capitalised phrase.
\<close>

theorem scrape_missing_sources_flag_witness:
  "\<not> includesStr ''Source: According To the Study, it MIGHT rain.'' ''source''
   \<and> \<not> includesStr ''Source: According To the Study, it MIGHT rain.'' ''study''
   \<and> \<not> includesStr ''Source: According To the Study, it MIGHT rain.'' ''research''
   \<and> ''Lack of cited sources or references''
       \<in> set (redFlags (generateAnalysis ''Source: According To the Study, it MIGHT rain.''
            ''T'' ''u''))
   \<and> hedgingLanguage (languageAnalysis (generateAnalysis
        ''Source: According To the Study, it MIGHT rain.'' ''T'' ''u'')) = [''might'']"
proof -
  have h: "\<not> includesStr ''Source: According To the Study, it MIGHT rain.'' ''source''"
    "\<not> includesStr ''Source: According To the Study, it MIGHT rain.'' ''study''"
    "\<not> includesStr ''Source: According To the Study, it MIGHT rain.'' ''research''"
    by code_simp+
  have hedge: "hedgingLanguage (languageAnalysis (generateAnalysis
        ''Source: According To the Study, it MIGHT rain.'' ''T'' ''u'')) = [''might'']"
    by code_simp
  from scrape_missing_sources_flag [OF h, of "''T''" "''u''"] h hedge
  show ?thesis by blast
qed

text \<open>The flag is raised in no other case.\<close>

lemma missing_sources_flag_converse:
  "''Lack of cited sources or references'' \<in> set (redFlags (generateAnalysis content title url))
   \<Longrightarrow> \<not> includesStr content ''source'' \<and> \<not> includesStr content ''study''
       \<and> \<not> includesStr content ''research''"
  by (simp add: generateAnalysis_def generateAnalysis_redFlags_def pushIf_set)

section \<open>The scrape response\<close>

text \<open>
  C8. Whenever the scrape route answers with a page, the analysis in its response is that of
  the whole extracted body text, and the content field is the first 2000 characters of the
  same text.
\<close>

theorem scrape_analyzes_untruncated:
  "u \<noteq> [] \<Longrightarrow> fetch u = Some d \<Longrightarrow>
   \<exists>resp. POST_scrape (Some u) fetch = Inr resp
     \<and> aiAnalysis resp = generateAnalysis (extractContent d) (extractTitle d) u
     \<and> respContent resp = take 2000 (extractContent d)
     \<and> length (respContent resp) \<le> 2000"
  by (simp add: POST_scrape_def Let_def)

text \<open>On \<open>longPage\<close> the extracted text has 2311 characters and the content field 2000.\<close>

theorem scrape_analyzes_untruncated_witness:
  "length (extractContent longPage) = 2311
   \<and> (\<exists>resp. POST_scrape (Some ''http://a.example/'') (servedPage longPage) = Inr resp
        \<and> aiAnalysis resp = generateAnalysis (extractContent longPage) (extractTitle longPage)
             ''http://a.example/''
        \<and> respContent resp = take 2000 (extractContent longPage)
        \<and> length (respContent resp) = 2000)"
proof -
  have url: "''http://a.example/'' \<noteq> []"
    by simp
  have fetched: "servedPage longPage ''http://a.example/'' = Some longPage"
    by (simp add: servedPage_def)
  have len: "length (extractContent longPage) = 2311"
    by code_simp
  from scrape_analyzes_untruncated [of "''http://a.example/''" "servedPage longPage" longPage]
    url fetched len
  show ?thesis by auto
qed

end
